theory Spec2Isabelle
  imports Complex_Main
begin

section \<open>JavaScript values\<close>

text \<open>
  The two request handlers of the backend (\<^verbatim>\<open>routes/checkoutRoutes.ts\<close> and
  \<^verbatim>\<open>routes/webhookRoutes.ts\<close>) read untyped JSON. A field of a request body is a
  JavaScript value; an absent field reads as \<^verbatim>\<open>undefined\<close>. Numbers are modelled as exact
  rationals together with \<^verbatim>\<open>NaN\<close>: the rounding of IEEE doubles and overflow to
  \<^verbatim>\<open>Infinity\<close> are outside the model. Nested arrays and objects as field values are not
  modelled.
\<close>

datatype jsnum = NaN | Fin rat

datatype jsval = JUndefined | JNull | JBool bool | JNum jsnum | JStr string

text \<open>\<^verbatim>\<open>!v\<close> is \<open>\<not> truthy v\<close>: the falsy values are undefined, null, false, 0, NaN and
  the empty string.\<close>

fun truthy :: "jsval \<Rightarrow> bool" where
  "truthy JUndefined = False"
| "truthy JNull = False"
| "truthy (JBool b) = b"
| "truthy (JNum NaN) = False"
| "truthy (JNum (Fin r)) = (r \<noteq> 0)"
| "truthy (JStr s) = (s \<noteq> [])"

text \<open>The arithmetic of \<^verbatim>\<open>*\<close> and \<^verbatim>\<open>+\<close> on numbers: NaN is absorbing.\<close>

fun js_mul :: "jsnum \<Rightarrow> jsnum \<Rightarrow> jsnum" where
  "js_mul (Fin a) (Fin b) = Fin (a * b)"
| "js_mul _ _ = NaN"

fun js_add :: "jsnum \<Rightarrow> jsnum \<Rightarrow> jsnum" where
  "js_add (Fin a) (Fin b) = Fin (a + b)"
| "js_add _ _ = NaN"

text \<open>\<^verbatim>\<open>Math.round(x)\<close> is \<open>floor (x + 1/2)\<close>.\<close>

fun Math_round :: "jsnum \<Rightarrow> jsnum" where
  "Math_round (Fin a) = Fin (of_int \<lfloor>a + 1 / 2\<rfloor>)"
| "Math_round NaN = NaN"

text \<open>
  The implicit conversion of an operand of \<^verbatim>\<open>*\<close> to a number. How the language reads a
  string as a number (\<^verbatim>\<open>StringToNumber\<close>) is a parameter.
\<close>

fun ToNumber :: "(string \<Rightarrow> jsnum) \<Rightarrow> jsval \<Rightarrow> jsnum" where
  "ToNumber s2n JUndefined = NaN"
| "ToNumber s2n JNull = Fin 0"
| "ToNumber s2n (JBool b) = Fin (if b then 1 else 0)"
| "ToNumber s2n (JNum n) = n"
| "ToNumber s2n (JStr s) = s2n s"

text \<open>A value inside a template literal; an unset environment variable prints as
  \<^verbatim>\<open>undefined\<close>.\<close>

fun tmpl :: "string option \<Rightarrow> string" where
  "tmpl None = ''undefined''"
| "tmpl (Some s) = s"

text \<open>\<^verbatim>\<open>new Date(v)\<close> is kept symbolic: the handlers never inspect the date.\<close>

datatype jsdate = new_Date jsval

section \<open>The data model (\<^verbatim>\<open>schema.prisma\<close>)\<close>

datatype BoatType = SMALL | NORMAL | SPEED_BOAT | MOTOR_YACHT

record boat =
  boat_id :: string
  boat_name :: string
  boat_type :: BoatType
  boat_portId :: string
  imageUrl :: "string option"
  hourlyRate :: jsnum
  halfDayRate :: jsnum
  fullDayRate :: jsnum

text \<open>A booking row. The column \<^verbatim>\<open>createdAt\<close> (the time of the insert) is left out.\<close>

record booking =
  b_id :: string
  b_userId :: "string option"
  b_boatId :: "string option"
  b_portId :: "string option"
  b_startTime :: jsdate
  b_endTime :: jsdate
  b_price :: jsnum
  b_paid :: bool
  b_includeCaptain :: bool

record db =
  boats :: "string \<rightharpoonup> boat"
  bookings :: "string \<rightharpoonup> booking"

section \<open>Failures, logs and responses\<close>

text \<open>What a call to the database client or to the payment gateway can throw.\<close>

datatype failure =
    PrismaValidationError
  | DatabaseUnavailable
  | RecordNotFound
  | InsertRefused
  | GatewayError string

datatype log_entry =
    ConsoleLog string
  | ConsoleWarn string
  | ConsoleError string "failure option"

datatype body =
    Json_error string
  | Json_session "string option" string
  | Json_received bool
  | Send string

record response =
  status :: nat
  body :: body

text \<open>What one run of a handler does: the response sent, the lines logged, the database
  afterwards.\<close>

record outcome =
  resp :: response
  logged :: "log_entry list"
  store :: db

section \<open>The database client\<close>

text \<open>
  \<^verbatim>\<open>prisma.boat.findUnique({ where: { id } })\<close>. The client throws on an id that is not a
  string, before it queries, and when the database does not answer (\<open>up\<close> is false).
\<close>

fun boat_findUnique :: "bool \<Rightarrow> db \<Rightarrow> jsval \<Rightarrow> failure + boat option" where
  "boat_findUnique up d (JStr s) = (if up then Inr (boats d s) else Inl DatabaseUnavailable)"
| "boat_findUnique up d _ = Inl PrismaValidationError"

text \<open>What the client accepts for a nullable string column and for the boolean column
  with default \<^verbatim>\<open>false\<close>.\<close>

fun string_column :: "jsval \<Rightarrow> string option option" where
  "string_column (JStr s) = Some (Some s)"
| "string_column JNull = Some None"
| "string_column JUndefined = Some None"
| "string_column _ = None"

fun boolean_column :: "jsval \<Rightarrow> bool option" where
  "boolean_column (JBool b) = Some b"
| "boolean_column JUndefined = Some False"
| "boolean_column _ = None"

record booking_data =
  d_boatId :: jsval
  d_portId :: jsval
  d_userId :: jsval
  d_startTime :: jsdate
  d_endTime :: jsdate
  d_includeCaptain :: jsval
  d_price :: jsnum
  d_paid :: bool

text \<open>
  \<^verbatim>\<open>prisma.booking.create({ data })\<close>. The first argument is the database's answer to the
  insert: the fresh id it assigns (\<^verbatim>\<open>@default(uuid())\<close>), or \<open>None\<close> when it refuses the
  row (a foreign key that matches no row, an invalid date, no connection). Before it asks
  the database the client checks the row: an id that is not a string, a flag that is not
  a boolean and a price that is not a finite number (\<^verbatim>\<open>NaN\<close>) make it throw.
\<close>

definition booking_create :: "string option \<Rightarrow> db \<Rightarrow> booking_data \<Rightarrow> failure + booking \<times> db" where
  "booking_create answer d dat =
     (case (string_column (d_boatId dat), string_column (d_portId dat),
            string_column (d_userId dat), boolean_column (d_includeCaptain dat), d_price dat) of
        (Some bo, Some po, Some us, Some cap, Fin p) \<Rightarrow>
          (case answer of
             None \<Rightarrow> Inl InsertRefused
           | Some i \<Rightarrow>
               (case bookings d i of
                  Some _ \<Rightarrow> Inl InsertRefused
                | None \<Rightarrow>
                    (let b = \<lparr>b_id = i, b_userId = us, b_boatId = bo, b_portId = po,
                              b_startTime = d_startTime dat, b_endTime = d_endTime dat,
                              b_price = Fin p, b_paid = d_paid dat,
                              b_includeCaptain = cap\<rparr>
                     in Inr (b, d\<lparr>bookings := (bookings d)(i \<mapsto> b)\<rparr>))))
      | _ \<Rightarrow> Inl PrismaValidationError)"

text \<open>\<^verbatim>\<open>prisma.booking.update({ where: { id }, data: { paid: true } })\<close>: a plain write of
  the flag; it throws when no row has the id.\<close>

definition booking_update_paid :: "bool \<Rightarrow> db \<Rightarrow> string \<Rightarrow> failure + db" where
  "booking_update_paid up d i =
     (if \<not> up then Inl DatabaseUnavailable
      else case bookings d i of
             None \<Rightarrow> Inl RecordNotFound
           | Some b \<Rightarrow> Inr (d\<lparr>bookings := (bookings d)(i \<mapsto> b\<lparr>b_paid := True\<rparr>)\<rparr>))"

section \<open>\<^verbatim>\<open>POST /create-checkout-session\<close>\<close>

record request_body =
  boatId :: jsval
  portId :: jsval
  userId :: jsval
  startTime :: jsval
  endTime :: jsval
  includeCaptain :: jsval
  bookingType :: jsval
  durationHours :: jsval

text \<open>Lines 37 to 52 of the handler: the base price by booking type, then the captain
  fee.\<close>

definition compute_price :: "(string \<Rightarrow> jsnum) \<Rightarrow> boat \<Rightarrow> jsval \<Rightarrow> jsval \<Rightarrow> jsval \<Rightarrow> jsnum" where
  "compute_price s2n bt bookingType' durationHours' includeCaptain' =
     (let price = Fin 0;
          price =
            (if bookingType' = JStr ''per_hour'' then js_mul (hourlyRate bt) (ToNumber s2n durationHours')
             else if bookingType' = JStr ''half_day'' then halfDayRate bt
             else if bookingType' = JStr ''full_day'' then fullDayRate bt
             else price);
          price =
            (if truthy includeCaptain' then
               (if bookingType' = JStr ''per_hour'' then js_add price (Fin 100)
                else if bookingType' = JStr ''half_day'' then js_add price (Fin 200)
                else if bookingType' = JStr ''full_day'' then js_add price (Fin 400)
                else price)
             else price)
      in price)"

record session_params =
  success_url :: string
  cancel_url :: string
  unit_amount :: jsnum
  product_name :: string
  product_description :: "jsval \<times> jsdate \<times> jsdate"
  md_bookingId :: string
  md_userId :: jsval
  md_boatId :: jsval
  md_portId :: jsval

record checkout_session =
  session_url :: "string option"
  session_id :: string

text \<open>What the handler does not decide: the language's reading of strings as numbers,
  the environment variable \<^verbatim>\<open>CLIENT_URL\<close>, whether the database answers the lookup, its
  answer to the insert, and the gateway's answer to
  \<^verbatim>\<open>stripe.checkout.sessions.create\<close>.\<close>

record checkout_env =
  StringToNumber :: "string \<Rightarrow> jsnum"
  CLIENT_URL :: "string option"
  db_up :: bool
  insert_answer :: "string option"
  sessions_create :: "session_params \<Rightarrow> string + checkout_session"

text \<open>The \<^verbatim>\<open>catch\<close> block of the handler.\<close>

definition caught :: "failure \<Rightarrow> db \<Rightarrow> outcome" where
  "caught e d =
     \<lparr>resp = \<lparr>status = 500, body = Json_error ''Internal server error during checkout process''\<rparr>,
      logged = [ConsoleError ''Stripe session error:'' (Some e)],
      store = d\<rparr>"

text \<open>The guard of line 29: the six fields it tests with \<^verbatim>\<open>!\<close>.\<close>

definition missing_required :: "request_body \<Rightarrow> bool" where
  "missing_required req =
     (\<not> truthy (boatId req) \<or> \<not> truthy (portId req) \<or> \<not> truthy (userId req) \<or>
      \<not> truthy (startTime req) \<or> \<not> truthy (endTime req) \<or> \<not> truthy (bookingType req))"

text \<open>The row handed to \<^verbatim>\<open>prisma.booking.create\<close> (lines 55 to 66) and the session asked
  of the gateway (lines 69 to 93).\<close>

definition booking_data_of :: "request_body \<Rightarrow> jsnum \<Rightarrow> booking_data" where
  "booking_data_of req price =
     \<lparr>d_boatId = boatId req, d_portId = portId req, d_userId = userId req,
      d_startTime = new_Date (startTime req), d_endTime = new_Date (endTime req),
      d_includeCaptain = includeCaptain req, d_price = price, d_paid = False\<rparr>"

definition session_params_of ::
  "checkout_env \<Rightarrow> request_body \<Rightarrow> boat \<Rightarrow> booking \<Rightarrow> jsnum \<Rightarrow> session_params" where
  "session_params_of env req bt bk price =
     \<lparr>success_url = tmpl (CLIENT_URL env) @ ''/success?bookingId='' @ b_id bk,
      cancel_url = tmpl (CLIENT_URL env) @ ''/cancel'',
      unit_amount = Math_round (js_mul price (Fin 100)),
      product_name = boat_name bt,
      product_description = (bookingType req, new_Date (startTime req), new_Date (endTime req)),
      md_bookingId = b_id bk, md_userId = userId req,
      md_boatId = boatId req, md_portId = portId req\<rparr>"

definition create_checkout_session :: "checkout_env \<Rightarrow> db \<Rightarrow> request_body \<Rightarrow> outcome" where
  "create_checkout_session env d req =
     (if missing_required req then
        \<lparr>resp = \<lparr>status = 400, body = Json_error ''Missing required booking data''\<rparr>,
         logged = [], store = d\<rparr>
      else
        (case boat_findUnique (db_up env) d (boatId req) of
           Inl e \<Rightarrow> caught e d
         | Inr None \<Rightarrow>
             \<lparr>resp = \<lparr>status = 404, body = Json_error ''Boat not found''\<rparr>, logged = [], store = d\<rparr>
         | Inr (Some bt) \<Rightarrow>
             (let price = compute_price (StringToNumber env) bt (bookingType req)
                            (durationHours req) (includeCaptain req)
              in case booking_create (insert_answer env) d (booking_data_of req price) of
                   Inl e \<Rightarrow> caught e d
                 | Inr (bk, d') \<Rightarrow>
                     (case sessions_create env (session_params_of env req bt bk price) of
                        Inl msg \<Rightarrow> caught (GatewayError msg) d'
                      | Inr session \<Rightarrow>
                          \<lparr>resp = \<lparr>status = 200,
                                   body = Json_session (session_url session) (session_id session)\<rparr>,
                           logged = [], store = d'\<rparr>))))"

section \<open>\<^verbatim>\<open>POST /webhook\<close>\<close>

text \<open>The request as the handler reads it: the raw body and the
  \<^verbatim>\<open>stripe-signature\<close> header.\<close>

record webhook_request =
  raw_body :: string
  stripe_signature :: "string option"

text \<open>The event that \<^verbatim>\<open>stripe.webhooks.constructEvent\<close> returns: its type, and the
  metadata of the object it carries (\<^verbatim>\<open>session.metadata\<close> may be null).\<close>

record stripe_event =
  event_type :: string
  object_metadata :: "(string \<rightharpoonup> string) option"

text \<open>\<^verbatim>\<open>session.metadata?.bookingId\<close>: undefined (here \<open>None\<close>) when the metadata
  is null or has no such key. The test \<^verbatim>\<open>if (bookingId)\<close> is false for undefined and
  for the empty string.\<close>

definition metadata_bookingId :: "stripe_event \<Rightarrow> string option" where
  "metadata_bookingId ev = (case object_metadata ev of None \<Rightarrow> None | Some m \<Rightarrow> m ''bookingId'')"

text \<open>
  The \<^verbatim>\<open>switch\<close> on the event type (lines 35 to 56): what it logs, and the database
  afterwards. \<open>up\<close> tells whether the database answers the update. A failed update is
  caught and logged.
\<close>

definition handle_event :: "bool \<Rightarrow> db \<Rightarrow> stripe_event \<Rightarrow> log_entry list \<times> db" where
  "handle_event up d event =
     (if event_type event = ''checkout.session.completed'' then
        (case metadata_bookingId event of
           Some bookingId \<Rightarrow>
             (if bookingId \<noteq> [] then
                (case booking_update_paid up d bookingId of
                   Inr d' \<Rightarrow>
                     ([ConsoleLog (''Booking '' @ bookingId @ '' marked as paid successfully.'')], d')
                 | Inl e \<Rightarrow>
                     ([ConsoleError (''Error updating booking '' @ bookingId @ '' to paid:'') (Some e)], d))
              else
                ([ConsoleWarn ''checkout.session.completed event received without bookingId in metadata.''], d))
         | None \<Rightarrow>
             ([ConsoleWarn ''checkout.session.completed event received without bookingId in metadata.''], d))
      else ([ConsoleLog (''Unhandled event type '' @ event_type event)], d))"

text \<open>
  The handler. \<open>constructEvent\<close> is the gateway library's verification of the signature
  over the raw body with the secret: it returns the parsed event, or throws with a
  message. \<open>webhookSecret\<close> is the environment variable
  \<^verbatim>\<open>STRIPE_WEBHOOK_SECRET\<close>; unset and empty are both falsy.
\<close>

definition secret_not_configured :: "db \<Rightarrow> outcome" where
  "secret_not_configured d =
     \<lparr>resp = \<lparr>status = 500, body = Send ''Webhook secret not configured.''\<rparr>,
      logged = [ConsoleError ''STRIPE_WEBHOOK_SECRET is not set!'' None], store = d\<rparr>"

definition webhook ::
  "(string \<Rightarrow> string option \<Rightarrow> string \<Rightarrow> string + stripe_event) \<Rightarrow> string option \<Rightarrow> bool \<Rightarrow>
   db \<Rightarrow> webhook_request \<Rightarrow> outcome" where
  "webhook constructEvent webhookSecret up d req =
     (case webhookSecret of
        None \<Rightarrow> secret_not_configured d
      | Some secret \<Rightarrow>
          (if secret = [] then secret_not_configured d
           else
             (case constructEvent (raw_body req) (stripe_signature req) secret of
                Inl msg \<Rightarrow>
                  \<lparr>resp = \<lparr>status = 400, body = Send (''Webhook Error: '' @ msg)\<rparr>,
                   logged = [ConsoleError (''Webhook Error: '' @ msg) None], store = d\<rparr>
              | Inr event \<Rightarrow>
                  (case handle_event up d event of
                     (logs, d') \<Rightarrow>
                       \<lparr>resp = \<lparr>status = 200, body = Json_received True\<rparr>,
                        logged = logs, store = d'\<rparr>))))"

section \<open>Example data\<close>

text \<open>One boat with the rate schedule 50 / 300 / 500, and one unpaid booking of it.\<close>

definition ex_boat :: boat where
  "ex_boat = \<lparr>boat_id = ''boat-1'', boat_name = ''Meltemi'', boat_type = NORMAL,
              boat_portId = ''port-1'', imageUrl = None,
              hourlyRate = Fin 50, halfDayRate = Fin 300, fullDayRate = Fin 500\<rparr>"

definition ex_booking :: booking where
  "ex_booking = \<lparr>b_id = ''bk-1'', b_userId = Some ''user-1'', b_boatId = Some ''boat-1'',
                 b_portId = Some ''port-1'',
                 b_startTime = new_Date (JStr ''2025-07-01T09:00:00.000Z''),
                 b_endTime = new_Date (JStr ''2025-07-01T13:00:00.000Z''),
                 b_price = Fin 200, b_paid = False, b_includeCaptain = False\<rparr>"

definition ex_db :: db where
  "ex_db = \<lparr>boats = [''boat-1'' \<mapsto> ex_boat], bookings = [''bk-1'' \<mapsto> ex_booking]\<rparr>"

text \<open>
  A stand-in for the gateway library in the examples: the signature of a payload under a
  secret is the secret followed by the payload, and a payload with that signature parses
  to the event \<open>ev\<close>.
\<close>

definition ex_completed :: "(string \<rightharpoonup> string) option \<Rightarrow> stripe_event" where
  "ex_completed md = \<lparr>event_type = ''checkout.session.completed'', object_metadata = md\<rparr>"

definition ex_constructEvent :: "stripe_event \<Rightarrow> string \<Rightarrow> string option \<Rightarrow> string \<Rightarrow> string + stripe_event" where
  "ex_constructEvent ev payload sig secret =
     (if sig = Some (secret @ payload) then Inr ev
      else Inl ''No signatures found matching the expected signature for payload.'')"

definition ex_delivery :: webhook_request where
  "ex_delivery = \<lparr>raw_body = ''{evt_1}'', stripe_signature = Some ''whsec_1{evt_1}''\<rparr>"

definition ex_forged :: webhook_request where
  "ex_forged = \<lparr>raw_body = ''{evt_1}'', stripe_signature = Some ''guess''\<rparr>"

text \<open>
  The same delivery handled twice, back to back: the second run starts from the database
  the first one left.
\<close>

definition ex_first :: outcome where
  "ex_first = webhook (ex_constructEvent (ex_completed (Some [''bookingId'' \<mapsto> ''bk-1''])))
                (Some ''whsec_1'') True ex_db ex_delivery"

definition ex_second :: outcome where
  "ex_second = webhook (ex_constructEvent (ex_completed (Some [''bookingId'' \<mapsto> ''bk-1''])))
                 (Some ''whsec_1'') True (store ex_first) ex_delivery"

text \<open>
  A verified event that names a booking the database does not have, and one that carries
  no metadata.
\<close>

definition ex_unknown :: outcome where
  "ex_unknown = webhook (ex_constructEvent (ex_completed (Some [''bookingId'' \<mapsto> ''bk-404''])))
                  (Some ''whsec_1'') True ex_db ex_delivery"

definition ex_uncorrelated :: outcome where
  "ex_uncorrelated = webhook (ex_constructEvent (ex_completed None)) (Some ''whsec_1'') True ex_db ex_delivery"

text \<open>
  A gateway that answers every session request the same way, an environment in which the
  database is up and assigns the id \<^verbatim>\<open>bk-2\<close>, and booking requests for the example boat.
\<close>

definition ex_gateway :: "bool \<Rightarrow> session_params \<Rightarrow> string + checkout_session" where
  "ex_gateway accepts p =
     (if accepts then
        Inr \<lparr>session_url = Some (''https://checkout.stripe.com/c/pay/cs_test_'' @ md_bookingId p),
             session_id = ''cs_test_'' @ md_bookingId p\<rparr>
      else Inl ''Invalid request'')"

definition ex_env :: "bool \<Rightarrow> checkout_env" where
  "ex_env accepts = \<lparr>StringToNumber = (\<lambda>s. NaN), CLIENT_URL = Some ''http://localhost:3000'',
                      db_up = True, insert_answer = Some ''bk-2'',
                      sessions_create = ex_gateway accepts\<rparr>"

definition ex_request :: "jsval \<Rightarrow> jsval \<Rightarrow> jsval \<Rightarrow> request_body" where
  "ex_request mode duration captain =
     \<lparr>boatId = JStr ''boat-1'', portId = JStr ''port-1'', userId = JStr ''user-1'',
      startTime = JStr ''2025-07-02T09:00:00.000Z'', endTime = JStr ''2025-07-02T15:00:00.000Z'',
      includeCaptain = captain, bookingType = mode, durationHours = duration\<rparr>"

definition ex_created :: "jsnum \<Rightarrow> booking" where
  "ex_created p = \<lparr>b_id = ''bk-2'', b_userId = Some ''user-1'', b_boatId = Some ''boat-1'',
                   b_portId = Some ''port-1'',
                   b_startTime = new_Date (JStr ''2025-07-02T09:00:00.000Z''),
                   b_endTime = new_Date (JStr ''2025-07-02T15:00:00.000Z''),
                   b_price = p, b_paid = False, b_includeCaptain = False\<rparr>"

definition ex_weekly :: request_body where
  "ex_weekly = ex_request (JStr ''weekly'') (JNum (Fin 4)) (JBool False)"

definition ex_no_duration :: request_body where
  "ex_no_duration = ex_request (JStr ''half_day'') JUndefined JUndefined"

definition ex_unknown_boat :: request_body where
  "ex_unknown_boat = (ex_request (JStr ''per_hour'') (JNum (Fin 4)) (JBool False))\<lparr>boatId := JStr ''boat-9''\<rparr>"

section \<open>Reading a response\<close>

text \<open>The acknowledgement \<^verbatim>\<open>res.json({ received: true })\<close>, and what a caller sees as a
  failure: a 4xx or 5xx status.\<close>

definition ack :: response where
  "ack = \<lparr>status = 200, body = Json_received True\<rparr>"

definition reports_failure :: "response \<Rightarrow> bool" where
  "reports_failure r = (400 \<le> status r)"

section \<open>The webhook: settlement\<close>

lemma handle_event_settles:
  assumes "event_type ev = ''checkout.session.completed''"
    and "metadata_bookingId ev = Some i" and "i \<noteq> []" and "bookings d i = Some b"
  shows "handle_event True d ev =
           ([ConsoleLog (''Booking '' @ i @ '' marked as paid successfully.'')],
            d\<lparr>bookings := (bookings d)(i \<mapsto> b\<lparr>b_paid := True\<rparr>)\<rparr>)"
  using assms by (simp add: handle_event_def booking_update_paid_def)

lemma webhook_verified:
  assumes "secret \<noteq> []"
    and "constructEvent (raw_body req) (stripe_signature req) secret = Inr ev"
  shows "webhook constructEvent (Some secret) up d req =
           \<lparr>resp = ack, logged = fst (handle_event up d ev), store = snd (handle_event up d ev)\<rparr>"
  using assms by (simp add: webhook_def ack_def split: prod.splits)

lemma ex_first_eq:
  "ex_first = \<lparr>resp = ack,
               logged = [ConsoleLog ''Booking bk-1 marked as paid successfully.''],
               store = ex_db\<lparr>bookings := [''bk-1'' \<mapsto> ex_booking\<lparr>b_paid := True\<rparr>]\<rparr>\<rparr>"
  by (simp add: ex_first_def webhook_def handle_event_def metadata_bookingId_def
      booking_update_paid_def ex_constructEvent_def ex_completed_def ex_delivery_def ex_db_def ack_def)

text \<open>
  Claim C1, as stated, fails. The claim wants the second of two identical deliveries to
  return an \<^verbatim>\<open>AlreadySettled\<close> outcome, told apart from the success of the first. For the
  unpaid booking \<^verbatim>\<open>bk-1\<close> the second delivery is handled exactly as the first: the same
  response, the same line "marked as paid successfully" in the log, and the update runs
  again.
\<close>

theorem duplicate_event_counterexample:
  "b_paid ex_booking = False \<and>
   logged ex_first = [ConsoleLog ''Booking bk-1 marked as paid successfully.''] \<and>
   logged ex_second = logged ex_first \<and> resp ex_second = resp ex_first \<and>
   store ex_second = store ex_first"
  by (simp add: ex_first_eq ex_second_def webhook_def handle_event_def metadata_bookingId_def
      booking_update_paid_def ex_constructEvent_def ex_completed_def ex_delivery_def ex_db_def ack_def
      ex_booking_def)

text \<open>
  Claim C1, amended. For every booking stored as unpaid, a verified
  \<^verbatim>\<open>checkout.session.completed\<close> event that names it, delivered twice back to back while
  the database answers: the first delivery writes \<^verbatim>\<open>paid = true\<close> on that booking and
  touches nothing else, answers 200 \<^verbatim>\<open>{received: true}\<close> and logs the success line; the
  second delivery has the same outcome and leaves the database as the first left it. Both
  deliveries are accepted; the handler has no \<^verbatim>\<open>AlreadySettled\<close> outcome.
\<close>

theorem duplicate_event_settles_once_written_twice:
  assumes "secret \<noteq> []"
    and "constructEvent (raw_body req) (stripe_signature req) secret = Inr ev"
    and "event_type ev = ''checkout.session.completed''"
    and "metadata_bookingId ev = Some i" and "i \<noteq> []"
    and "bookings d i = Some b" and "b_paid b = False"
  shows "webhook constructEvent (Some secret) True d req =
           \<lparr>resp = \<lparr>status = 200, body = Json_received True\<rparr>,
            logged = [ConsoleLog (''Booking '' @ i @ '' marked as paid successfully.'')],
            store = d\<lparr>bookings := (bookings d)(i \<mapsto> b\<lparr>b_paid := True\<rparr>)\<rparr>\<rparr> \<and>
         webhook constructEvent (Some secret) True
             (store (webhook constructEvent (Some secret) True d req)) req =
           webhook constructEvent (Some secret) True d req"
proof -
  let ?d1 = "d\<lparr>bookings := (bookings d)(i \<mapsto> b\<lparr>b_paid := True\<rparr>)\<rparr>"
  let ?log = "[ConsoleLog (''Booking '' @ i @ '' marked as paid successfully.'')]"
  have first: "webhook constructEvent (Some secret) True d req = \<lparr>resp = ack, logged = ?log, store = ?d1\<rparr>"
    using assms by (simp add: webhook_verified handle_event_settles)
  have "bookings ?d1 i = Some (b\<lparr>b_paid := True\<rparr>)"
    by simp
  then have "handle_event True ?d1 ev = (?log, ?d1\<lparr>bookings := (bookings ?d1)(i \<mapsto> b\<lparr>b_paid := True\<rparr>)\<rparr>)"
    using assms(3-5) by (simp add: handle_event_settles)
  then have second: "webhook constructEvent (Some secret) True ?d1 req = \<lparr>resp = ack, logged = ?log, store = ?d1\<rparr>"
    using assms(1,2) by (simp add: webhook_verified)
  show ?thesis
    using first second by (simp add: ack_def)
qed

theorem duplicate_event_settles_once_written_twice_witness:
  "ex_first = \<lparr>resp = \<lparr>status = 200, body = Json_received True\<rparr>,
               logged = [ConsoleLog ''Booking bk-1 marked as paid successfully.''],
               store = ex_db\<lparr>bookings := (bookings ex_db)(''bk-1'' \<mapsto> ex_booking\<lparr>b_paid := True\<rparr>)\<rparr>\<rparr> \<and>
   ex_second = ex_first"
proof -
  let ?ev = "ex_completed (Some [''bookingId'' \<mapsto> ''bk-1''])"
  have verified: "ex_constructEvent ?ev (raw_body ex_delivery) (stripe_signature ex_delivery) ''whsec_1'' = Inr ?ev"
    by (simp add: ex_constructEvent_def ex_delivery_def)
  have completed: "event_type ?ev = ''checkout.session.completed''"
    by (simp add: ex_completed_def)
  have correlated: "metadata_bookingId ?ev = Some ''bk-1''"
    by (simp add: metadata_bookingId_def ex_completed_def)
  have stored: "bookings ex_db ''bk-1'' = Some ex_booking"
    by (simp add: ex_db_def)
  have unsettled: "b_paid ex_booking = False"
    by (simp add: ex_booking_def)
  have "''whsec_1'' \<noteq> []" and "''bk-1'' \<noteq> []"
    by simp_all
  note twice = duplicate_event_settles_once_written_twice
    [where constructEvent = "ex_constructEvent ?ev" and req = ex_delivery,
     OF this(1) verified completed correlated this(2) stored unsettled]
  have first: "ex_first = \<lparr>resp = \<lparr>status = 200, body = Json_received True\<rparr>,
               logged = [ConsoleLog ''Booking bk-1 marked as paid successfully.''],
               store = ex_db\<lparr>bookings := (bookings ex_db)(''bk-1'' \<mapsto> ex_booking\<lparr>b_paid := True\<rparr>)\<rparr>\<rparr>"
    unfolding ex_first_def using twice [THEN conjunct1] by simp
  have second: "ex_second = ex_first"
    unfolding ex_first_def ex_second_def by (rule twice [THEN conjunct2])
  show ?thesis
    using first second by blast
qed

text \<open>
  Claim C2, as stated, fails. A verified event that names the unknown booking
  \<^verbatim>\<open>bk-404\<close> is answered with the same 200 acknowledgement as a settlement: the caller
  sees no failure.
\<close>

theorem unknown_reservation_counterexample:
  "\<not> reports_failure (resp ex_unknown) \<and> resp ex_unknown = resp ex_first"
  by (simp add: ex_first_eq ex_unknown_def webhook_def handle_event_def metadata_bookingId_def
      booking_update_paid_def ex_constructEvent_def ex_completed_def ex_delivery_def ex_db_def ack_def
      reports_failure_def)

text \<open>
  Claim C2, amended. For every verified \<^verbatim>\<open>checkout.session.completed\<close> event whose
  booking id matches no stored booking, the database is unchanged, the failed update is
  caught and logged with \<^verbatim>\<open>console.error\<close>, and the caller receives the 200
  acknowledgement \<^verbatim>\<open>{received: true}\<close>.
\<close>

theorem unknown_reservation_logged_and_acknowledged:
  assumes "secret \<noteq> []"
    and "constructEvent (raw_body req) (stripe_signature req) secret = Inr ev"
    and "event_type ev = ''checkout.session.completed''"
    and "metadata_bookingId ev = Some i" and "i \<noteq> []"
    and "bookings d i = None"
  shows "webhook constructEvent (Some secret) up d req =
           \<lparr>resp = \<lparr>status = 200, body = Json_received True\<rparr>,
            logged = [ConsoleError (''Error updating booking '' @ i @ '' to paid:'')
                        (Some (if up then RecordNotFound else DatabaseUnavailable))],
            store = d\<rparr>"
  using assms by (simp add: webhook_def handle_event_def booking_update_paid_def)

theorem unknown_reservation_logged_and_acknowledged_witness:
  "ex_unknown = \<lparr>resp = \<lparr>status = 200, body = Json_received True\<rparr>,
                 logged = [ConsoleError ''Error updating booking bk-404 to paid:'' (Some RecordNotFound)],
                 store = ex_db\<rparr>"
  using unknown_reservation_logged_and_acknowledged [where secret = "''whsec_1''"
      and constructEvent = "ex_constructEvent (ex_completed (Some [''bookingId'' \<mapsto> ''bk-404'']))"
      and req = ex_delivery and ev = "ex_completed (Some [''bookingId'' \<mapsto> ''bk-404''])"
      and i = "''bk-404''" and d = ex_db and up = True]
  by (simp add: ex_unknown_def ex_constructEvent_def ex_delivery_def ex_completed_def
      metadata_bookingId_def ex_db_def)

text \<open>
  Claim C3, as stated, fails. A verified \<^verbatim>\<open>checkout.session.completed\<close> event without
  metadata is not rejected: the handler answers 200 \<^verbatim>\<open>{received: true}\<close>.
\<close>

theorem missing_correlation_counterexample:
  "\<not> reports_failure (resp ex_uncorrelated) \<and> resp ex_uncorrelated = \<lparr>status = 200, body = Json_received True\<rparr>"
  by (simp add: ex_uncorrelated_def webhook_def handle_event_def metadata_bookingId_def
      ex_constructEvent_def ex_completed_def ex_delivery_def reports_failure_def)

text \<open>
  Claim C3, amended. For every verified \<^verbatim>\<open>checkout.session.completed\<close> event that
  carries no booking id in its metadata, the database is unchanged, a warning is logged
  with \<^verbatim>\<open>console.warn\<close>, and the caller receives the 200 acknowledgement
  \<^verbatim>\<open>{received: true}\<close>.
\<close>

theorem missing_correlation_warned_and_acknowledged:
  assumes "secret \<noteq> []"
    and "constructEvent (raw_body req) (stripe_signature req) secret = Inr ev"
    and "event_type ev = ''checkout.session.completed''"
    and "metadata_bookingId ev = None"
  shows "webhook constructEvent (Some secret) up d req =
           \<lparr>resp = \<lparr>status = 200, body = Json_received True\<rparr>,
            logged = [ConsoleWarn ''checkout.session.completed event received without bookingId in metadata.''],
            store = d\<rparr>"
  using assms by (simp add: webhook_def handle_event_def)

theorem missing_correlation_warned_and_acknowledged_witness:
  "ex_uncorrelated =
     \<lparr>resp = \<lparr>status = 200, body = Json_received True\<rparr>,
      logged = [ConsoleWarn ''checkout.session.completed event received without bookingId in metadata.''],
      store = ex_db\<rparr>"
  using missing_correlation_warned_and_acknowledged [where secret = "''whsec_1''"
      and constructEvent = "ex_constructEvent (ex_completed None)"
      and req = ex_delivery and ev = "ex_completed None" and d = ex_db and up = True]
  by (simp add: ex_uncorrelated_def ex_constructEvent_def ex_delivery_def ex_completed_def
      metadata_bookingId_def)

text \<open>
  Claim C4. With the webhook secret configured, every delivery whose signature fails
  verification is answered with status 400 and the library's message, and the database is
  left as it was, whatever the payload claims.
\<close>

theorem invalid_signature_rejected:
  assumes "secret \<noteq> []"
    and "constructEvent (raw_body req) (stripe_signature req) secret = Inl msg"
  shows "webhook constructEvent (Some secret) up d req =
           \<lparr>resp = \<lparr>status = 400, body = Send (''Webhook Error: '' @ msg)\<rparr>,
            logged = [ConsoleError (''Webhook Error: '' @ msg) None],
            store = d\<rparr>"
  using assms by (simp add: webhook_def)

theorem invalid_signature_rejected_witness:
  "webhook (ex_constructEvent (ex_completed (Some [''bookingId'' \<mapsto> ''bk-1''])))
      (Some ''whsec_1'') True ex_db ex_forged =
     \<lparr>resp = \<lparr>status = 400,
              body = Send ''Webhook Error: No signatures found matching the expected signature for payload.''\<rparr>,
      logged = [ConsoleError ''Webhook Error: No signatures found matching the expected signature for payload.'' None],
      store = ex_db\<rparr>"
  using invalid_signature_rejected [where secret = "''whsec_1''"
      and constructEvent = "ex_constructEvent (ex_completed (Some [''bookingId'' \<mapsto> ''bk-1'']))"
      and req = ex_forged and up = True and d = ex_db
      and msg = "''No signatures found matching the expected signature for payload.''"]
  by (simp add: ex_constructEvent_def ex_forged_def)

text \<open>
  Claim C5. With the webhook secret configured, every delivery whose signature verifies
  is answered with 200 \<^verbatim>\<open>{received: true}\<close>: whatever the event type, with or without a
  booking id, whether or not a booking matches, and whether or not the database answers
  the update.
\<close>

theorem verified_event_acknowledged:
  assumes "secret \<noteq> []"
    and "constructEvent (raw_body req) (stripe_signature req) secret = Inr ev"
  shows "resp (webhook constructEvent (Some secret) up d req) = \<lparr>status = 200, body = Json_received True\<rparr>"
  using assms by (simp add: webhook_def split: prod.splits)

theorem verified_event_acknowledged_witness:
  "resp (webhook (ex_constructEvent (ex_completed (Some [''bookingId'' \<mapsto> ''bk-1''])))
           (Some ''whsec_1'') False ex_db ex_delivery) =
     \<lparr>status = 200, body = Json_received True\<rparr>"
  using verified_event_acknowledged [where secret = "''whsec_1''"
      and constructEvent = "ex_constructEvent (ex_completed (Some [''bookingId'' \<mapsto> ''bk-1'']))"
      and req = ex_delivery and ev = "ex_completed (Some [''bookingId'' \<mapsto> ''bk-1''])"
      and up = False and d = ex_db]
  by (simp add: ex_constructEvent_def ex_delivery_def)

section \<open>Checkout: price, validation and lookup\<close>

lemma store_caught [simp]: "store (caught e d) = d"
  by (simp add: caught_def)

lemma status_caught [simp]: "status (resp (caught e d)) = 500"
  by (simp add: caught_def)

lemma booking_create_accepted:
  assumes "string_column (d_boatId dat) = Some bo" and "string_column (d_portId dat) = Some po"
    and "string_column (d_userId dat) = Some us" and "boolean_column (d_includeCaptain dat) = Some cap"
    and "d_price dat = Fin p" and "bookings d i = None"
  shows "booking_create (Some i) d dat =
           Inr (\<lparr>b_id = i, b_userId = us, b_boatId = bo, b_portId = po,
                 b_startTime = d_startTime dat, b_endTime = d_endTime dat,
                 b_price = Fin p, b_paid = d_paid dat, b_includeCaptain = cap\<rparr>,
                d\<lparr>bookings := (bookings d)
                  (i \<mapsto> \<lparr>b_id = i, b_userId = us, b_boatId = bo, b_portId = po,
                         b_startTime = d_startTime dat, b_endTime = d_endTime dat,
                         b_price = Fin p, b_paid = d_paid dat, b_includeCaptain = cap\<rparr>)\<rparr>)"
  using assms by (simp add: booking_create_def Let_def)

lemma booking_create_NaN:
  assumes "d_price dat = NaN"
  shows "booking_create answer d dat = Inl PrismaValidationError"
  using assms by (simp add: booking_create_def split: option.splits)

text \<open>
  The row that a request leaves in the database once the insert is accepted. The price must
  be a number: the client refuses \<^verbatim>\<open>NaN\<close>.
\<close>

lemma checkout_persists:
  assumes "\<not> missing_required req" and "db_up env"
    and "boatId req = JStr bid" and "boats d bid = Some bt"
    and "string_column (portId req) = Some po" and "string_column (userId req) = Some us"
    and "boolean_column (includeCaptain req) = Some cap"
    and "compute_price (StringToNumber env) bt (bookingType req)
           (durationHours req) (includeCaptain req) = Fin p"
    and "insert_answer env = Some i" and "bookings d i = None"
  shows "bookings (store (create_checkout_session env d req)) i =
           Some \<lparr>b_id = i, b_userId = us, b_boatId = Some bid, b_portId = po,
                 b_startTime = new_Date (startTime req), b_endTime = new_Date (endTime req),
                 b_price = Fin p, b_paid = False, b_includeCaptain = cap\<rparr>"
proof -
  let ?dat = "booking_data_of req (Fin p)"
  have "booking_create (Some i) d ?dat =
          Inr (\<lparr>b_id = i, b_userId = us, b_boatId = Some bid, b_portId = po,
                b_startTime = d_startTime ?dat, b_endTime = d_endTime ?dat,
                b_price = Fin p, b_paid = d_paid ?dat, b_includeCaptain = cap\<rparr>,
               d\<lparr>bookings := (bookings d)
                 (i \<mapsto> \<lparr>b_id = i, b_userId = us, b_boatId = Some bid, b_portId = po,
                        b_startTime = d_startTime ?dat, b_endTime = d_endTime ?dat,
                        b_price = Fin p, b_paid = d_paid ?dat, b_includeCaptain = cap\<rparr>)\<rparr>)"
    using assms(3,5,6,7,10) by (intro booking_create_accepted) (simp_all add: booking_data_of_def)
  then show ?thesis
    using assms(1-4,8,9)
    by (simp add: create_checkout_session_def booking_data_of_def Let_def split: sum.splits)
qed

text \<open>
  A \<^verbatim>\<open>per_hour\<close> request without \<^verbatim>\<open>durationHours\<close> passes the guard of line 29, but its
  price is \<^verbatim>\<open>NaN\<close>: the insert throws, the \<^verbatim>\<open>catch\<close> block answers 500 and no row is
  stored.
\<close>

lemma per_hour_without_duration:
  assumes "\<not> missing_required req" and "db_up env"
    and "boatId req = JStr bid" and "boats d bid = Some bt"
    and "bookingType req = JStr ''per_hour''" and "durationHours req = JUndefined"
  shows "create_checkout_session env d req = caught PrismaValidationError d"
proof -
  have "compute_price (StringToNumber env) bt (bookingType req) (durationHours req) (includeCaptain req) = NaN"
    using assms(5,6) by (simp add: compute_price_def Let_def)
  then have "booking_create (insert_answer env) d
               (booking_data_of req (compute_price (StringToNumber env) bt (bookingType req)
                  (durationHours req) (includeCaptain req))) = Inl PrismaValidationError"
    by (simp add: booking_create_NaN booking_data_of_def)
  then show ?thesis
    using assms(1-4) by (simp add: create_checkout_session_def Let_def)
qed

lemma checkout_incomplete:
  assumes "missing_required req"
  shows "create_checkout_session env d req =
           \<lparr>resp = \<lparr>status = 400, body = Json_error ''Missing required booking data''\<rparr>,
            logged = [], store = d\<rparr>"
  using assms by (simp add: create_checkout_session_def)

text \<open>
  A request with all six required fields ends in one of three ways: something threw and
  the \<^verbatim>\<open>catch\<close> block answered 500, the boat was not found, or the session was created.
\<close>

lemma checkout_complete_cases:
  assumes "\<not> missing_required req"
  obtains (threw) e d' where "create_checkout_session env d req = caught e d'"
  | (not_found) "create_checkout_session env d req =
        \<lparr>resp = \<lparr>status = 404, body = Json_error ''Boat not found''\<rparr>, logged = [], store = d\<rparr>"
  | (redirected) session :: checkout_session and d' where "create_checkout_session env d req =
        \<lparr>resp = \<lparr>status = 200, body = Json_session (session_url session) (session_id session)\<rparr>,
         logged = [], store = d'\<rparr>"
proof (cases "boat_findUnique (db_up env) d (boatId req)")
  case (Inl e)
  then have "create_checkout_session env d req = caught e d"
    using assms by (simp add: create_checkout_session_def)
  then show ?thesis by (rule threw)
next
  case (Inr found)
  show ?thesis
  proof (cases found)
    case None
    then have "create_checkout_session env d req =
        \<lparr>resp = \<lparr>status = 404, body = Json_error ''Boat not found''\<rparr>, logged = [], store = d\<rparr>"
      using assms Inr by (simp add: create_checkout_session_def)
    then show ?thesis by (rule not_found)
  next
    case (Some bt)
    let ?price = "compute_price (StringToNumber env) bt (bookingType req) (durationHours req) (includeCaptain req)"
    show ?thesis
    proof (cases "booking_create (insert_answer env) d (booking_data_of req ?price)")
      case (Inl e)
      then have "create_checkout_session env d req = caught e d"
        using assms \<open>boat_findUnique (db_up env) d (boatId req) = Inr found\<close> Some
        by (simp add: create_checkout_session_def)
      then show ?thesis by (rule threw)
    next
      case created: (Inr r)
      obtain bk d' where r: "r = (bk, d')" by (cases r)
      show ?thesis
      proof (cases "sessions_create env (session_params_of env req bt bk ?price)")
        case (Inl msg)
        then have "create_checkout_session env d req = caught (GatewayError msg) d'"
          using assms \<open>boat_findUnique (db_up env) d (boatId req) = Inr found\<close> Some created r
          by (simp add: create_checkout_session_def)
        then show ?thesis by (rule threw)
      next
        case (Inr session)
        then have "create_checkout_session env d req =
            \<lparr>resp = \<lparr>status = 200, body = Json_session (session_url session) (session_id session)\<rparr>,
             logged = [], store = d'\<rparr>"
          using assms \<open>boat_findUnique (db_up env) d (boatId req) = Inr found\<close> Some created r
          by (simp add: create_checkout_session_def)
        then show ?thesis by (rule redirected)
      qed
    qed
  qed
qed

lemma status_not_400_when_complete:
  assumes "\<not> missing_required req"
  shows "status (resp (create_checkout_session env d req)) \<noteq> 400"
  using assms by (rule checkout_complete_cases [where env = env and d = d]) simp_all

text \<open>
  Claim C6. The price by booking type: the hourly rate times the duration for
  \<^verbatim>\<open>per_hour\<close>, the half-day rate for \<^verbatim>\<open>half_day\<close> and the full-day rate for
  \<^verbatim>\<open>full_day\<close> (the duration is not read for these two); with the captain included, the fee
  100, 200 or 400 of that booking type is added. With the rates 50 / 300 / 500, four hours
  without captain cost 200.
\<close>

theorem price_by_mode:
  "compute_price s2n bt (JStr ''per_hour'') duration captain =
     (if truthy captain then js_add (js_mul (hourlyRate bt) (ToNumber s2n duration)) (Fin 100)
      else js_mul (hourlyRate bt) (ToNumber s2n duration)) \<and>
   compute_price s2n bt (JStr ''half_day'') duration captain =
     (if truthy captain then js_add (halfDayRate bt) (Fin 200) else halfDayRate bt) \<and>
   compute_price s2n bt (JStr ''full_day'') duration captain =
     (if truthy captain then js_add (fullDayRate bt) (Fin 400) else fullDayRate bt)"
  by (simp add: compute_price_def Let_def)

theorem price_by_mode_witness:
  "compute_price (\<lambda>s. NaN) ex_boat (JStr ''per_hour'') (JNum (Fin 4)) (JBool False) = Fin 200 \<and>
   compute_price (\<lambda>s. NaN) ex_boat (JStr ''half_day'') (JNum (Fin 6)) (JBool True) = Fin 500 \<and>
   compute_price (\<lambda>s. NaN) ex_boat (JStr ''full_day'') (JNum (Fin 12)) (JBool True) = Fin 900"
  using price_by_mode [of "\<lambda>s. NaN" ex_boat "JNum (Fin 4)" "JBool False"]
    price_by_mode [of "\<lambda>s. NaN" ex_boat "JNum (Fin 6)" "JBool True"]
    price_by_mode [of "\<lambda>s. NaN" ex_boat "JNum (Fin 12)" "JBool True"]
  by (simp add: ex_boat_def)

text \<open>
  Claim C7, as stated, fails. A request with the booking type \<^verbatim>\<open>weekly\<close> is not
  refused: the booking is inserted with price 0, whether the gateway then accepts the
  session or not.
\<close>

theorem unrecognized_mode_counterexample:
  "bookingType ex_weekly = JStr ''weekly'' \<and> bookings ex_db ''bk-2'' = None \<and>
   bookings (store (create_checkout_session (ex_env True) ex_db ex_weekly)) ''bk-2'' = Some (ex_created (Fin 0)) \<and>
   bookings (store (create_checkout_session (ex_env False) ex_db ex_weekly)) ''bk-2'' = Some (ex_created (Fin 0))"
  by (simp add: create_checkout_session_def missing_required_def booking_create_def compute_price_def
      booking_data_of_def session_params_of_def Let_def caught_def ex_weekly_def ex_request_def ex_env_def ex_gateway_def ex_db_def ex_created_def)

text \<open>
  Claim C7, amended. For every request whose booking type is none of \<^verbatim>\<open>per_hour\<close>,
  \<^verbatim>\<open>half_day\<close> and \<^verbatim>\<open>full_day\<close>, the price calculation does not fail: the price is 0,
  with no captain fee; and when the request has its required fields, the boat exists and
  the database accepts the insert, an unpaid booking with price 0 is stored.
\<close>

theorem unrecognized_mode_priced_zero:
  assumes "bookingType req \<noteq> JStr ''per_hour''" and "bookingType req \<noteq> JStr ''half_day''"
    and "bookingType req \<noteq> JStr ''full_day''"
    and "\<not> missing_required req" and "db_up env"
    and "boatId req = JStr bid" and "boats d bid = Some bt"
    and "string_column (portId req) = Some po" and "string_column (userId req) = Some us"
    and "boolean_column (includeCaptain req) = Some cap"
    and "insert_answer env = Some i" and "bookings d i = None"
  shows "compute_price (StringToNumber env) bt (bookingType req) (durationHours req) (includeCaptain req) = Fin 0 \<and>
         bookings (store (create_checkout_session env d req)) i =
           Some \<lparr>b_id = i, b_userId = us, b_boatId = Some bid, b_portId = po,
                 b_startTime = new_Date (startTime req), b_endTime = new_Date (endTime req),
                 b_price = Fin 0, b_paid = False, b_includeCaptain = cap\<rparr>"
proof -
  have zero: "compute_price (StringToNumber env) bt (bookingType req) (durationHours req) (includeCaptain req) = Fin 0"
    using assms(1-3) by (simp add: compute_price_def Let_def)
  show ?thesis
    using checkout_persists [OF assms(4-10) zero assms(11,12)] zero by simp
qed

theorem unrecognized_mode_priced_zero_witness:
  "compute_price (StringToNumber (ex_env True)) ex_boat (JStr ''weekly'') (JNum (Fin 4)) (JBool False) = Fin 0 \<and>
   bookings (store (create_checkout_session (ex_env True) ex_db ex_weekly)) ''bk-2'' = Some (ex_created (Fin 0))"
  using unrecognized_mode_priced_zero [where req = ex_weekly and env = "ex_env True" and d = ex_db
      and bid = "''boat-1''" and bt = ex_boat and po = "Some ''port-1''" and us = "Some ''user-1''"
      and cap = False and i = "''bk-2''"]
  by (simp add: ex_weekly_def ex_request_def ex_env_def ex_db_def ex_created_def missing_required_def)

text \<open>
  Claim C8. For rates that are non-negative numbers and a duration that is a non-negative
  number, the price is a non-negative number, and it is determined by the booking type,
  the duration, the three rates and whether the captain is included: nothing else of the
  boat, of the request or of the environment enters it.
\<close>

theorem price_nonnegative_and_determined:
  assumes "hourlyRate bt = Fin h" and "halfDayRate bt = Fin hf" and "fullDayRate bt = Fin fd"
    and "0 \<le> h" and "0 \<le> hf" and "0 \<le> fd"
    and "duration = JNum (Fin n)" and "0 \<le> n"
  shows "(\<exists>p. compute_price s2n bt mode duration captain = Fin p \<and> 0 \<le> p) \<and>
         (\<forall>s2n' bt' captain'.
            hourlyRate bt' = hourlyRate bt \<and> halfDayRate bt' = halfDayRate bt \<and>
            fullDayRate bt' = fullDayRate bt \<and> truthy captain' = truthy captain \<longrightarrow>
            compute_price s2n' bt' mode duration captain' = compute_price s2n bt mode duration captain)"
proof
  show "\<exists>p. compute_price s2n bt mode duration captain = Fin p \<and> 0 \<le> p"
    using assms by (simp add: compute_price_def Let_def)
  show "\<forall>s2n' bt' captain'.
            hourlyRate bt' = hourlyRate bt \<and> halfDayRate bt' = halfDayRate bt \<and>
            fullDayRate bt' = fullDayRate bt \<and> truthy captain' = truthy captain \<longrightarrow>
            compute_price s2n' bt' mode duration captain' = compute_price s2n bt mode duration captain"
    using assms(7) by (simp add: compute_price_def Let_def)
qed

theorem price_nonnegative_and_determined_witness:
  "(\<exists>p. compute_price (\<lambda>s. NaN) ex_boat (JStr ''per_hour'') (JNum (Fin 4)) (JBool True) = Fin p \<and> 0 \<le> p) \<and>
   compute_price (\<lambda>s. Fin 7) (ex_boat\<lparr>boat_name := ''Zephyros''\<rparr>) (JStr ''per_hour'') (JNum (Fin 4)) (JStr ''yes'') =
     compute_price (\<lambda>s. NaN) ex_boat (JStr ''per_hour'') (JNum (Fin 4)) (JBool True)"
proof -
  have rates: "hourlyRate ex_boat = Fin 50" "halfDayRate ex_boat = Fin 300" "fullDayRate ex_boat = Fin 500"
    by (simp_all add: ex_boat_def)
  have bounds: "(0::rat) \<le> 50" "(0::rat) \<le> 300" "(0::rat) \<le> 500" "(0::rat) \<le> 4"
    by simp_all
  note price = price_nonnegative_and_determined
    [where s2n = "\<lambda>s. NaN" and mode = "JStr ''per_hour''" and captain = "JBool True",
     OF rates bounds(1-3) refl bounds(4)]
  have "hourlyRate (ex_boat\<lparr>boat_name := ''Zephyros''\<rparr>) = hourlyRate ex_boat \<and>
        halfDayRate (ex_boat\<lparr>boat_name := ''Zephyros''\<rparr>) = halfDayRate ex_boat \<and>
        fullDayRate (ex_boat\<lparr>boat_name := ''Zephyros''\<rparr>) = fullDayRate ex_boat \<and>
        truthy (JStr ''yes'') = truthy (JBool True)"
    by simp
  with price [THEN conjunct2] have
    "compute_price (\<lambda>s. Fin 7) (ex_boat\<lparr>boat_name := ''Zephyros''\<rparr>) (JStr ''per_hour'') (JNum (Fin 4)) (JStr ''yes'') =
     compute_price (\<lambda>s. NaN) ex_boat (JStr ''per_hour'') (JNum (Fin 4)) (JBool True)"
    by blast
  with price [THEN conjunct1] show ?thesis
    by blast
qed

text \<open>
  Claim C9, as stated, fails. A \<^verbatim>\<open>half_day\<close> request with neither
  \<^verbatim>\<open>durationHours\<close> nor \<^verbatim>\<open>includeCaptain\<close> is accepted: the booking is stored and the
  session is returned.
\<close>

theorem absent_duration_counterexample:
  "durationHours ex_no_duration = JUndefined \<and> includeCaptain ex_no_duration = JUndefined \<and>
   resp (create_checkout_session (ex_env True) ex_db ex_no_duration) =
     \<lparr>status = 200, body = Json_session (Some ''https://checkout.stripe.com/c/pay/cs_test_bk-2'') ''cs_test_bk-2''\<rparr> \<and>
   bookings (store (create_checkout_session (ex_env True) ex_db ex_no_duration)) ''bk-2'' = Some (ex_created (Fin 300))"
  by (simp add: create_checkout_session_def missing_required_def booking_create_def compute_price_def
      booking_data_of_def session_params_of_def Let_def caught_def ex_no_duration_def ex_request_def ex_env_def ex_gateway_def ex_db_def
      ex_created_def ex_boat_def)

text \<open>
  Claim C9, amended. The handler answers 400 "Missing required booking data", leaving the
  database unchanged, exactly when one of \<^verbatim>\<open>boatId\<close>, \<^verbatim>\<open>portId\<close>, \<^verbatim>\<open>userId\<close>,
  \<^verbatim>\<open>startTime\<close>, \<^verbatim>\<open>endTime\<close>, \<^verbatim>\<open>bookingType\<close> is absent or otherwise falsy (null,
  false, 0, the empty string). The duration and the captain flag are not among the fields
  this check tests: a request that lacks only them is never answered with the validation
  error.
\<close>

theorem validation_checks_six_fields:
  "(status (resp (create_checkout_session env d req)) = 400) =
     (\<not> truthy (boatId req) \<or> \<not> truthy (portId req) \<or> \<not> truthy (userId req) \<or>
      \<not> truthy (startTime req) \<or> \<not> truthy (endTime req) \<or> \<not> truthy (bookingType req)) \<and>
   (status (resp (create_checkout_session env d req)) = 400 \<longrightarrow>
      create_checkout_session env d req =
        \<lparr>resp = \<lparr>status = 400, body = Json_error ''Missing required booking data''\<rparr>,
         logged = [], store = d\<rparr>)"
proof (cases "missing_required req")
  case True
  from checkout_incomplete [OF True, of env d] True show ?thesis
    by (simp add: missing_required_def)
next
  case False
  from status_not_400_when_complete [OF False, of env d] False show ?thesis
    by (simp add: missing_required_def)
qed

theorem validation_checks_six_fields_witness:
  "create_checkout_session (ex_env True) ex_db (ex_no_duration\<lparr>portId := JStr []\<rparr>) =
     \<lparr>resp = \<lparr>status = 400, body = Json_error ''Missing required booking data''\<rparr>,
      logged = [], store = ex_db\<rparr> \<and>
   status (resp (create_checkout_session (ex_env True) ex_db ex_no_duration)) \<noteq> 400"
proof -
  have "\<not> truthy (portId (ex_no_duration\<lparr>portId := JStr []\<rparr>))"
    by simp
  then have "status (resp (create_checkout_session (ex_env True) ex_db (ex_no_duration\<lparr>portId := JStr []\<rparr>))) = 400"
    using validation_checks_six_fields [of "ex_env True" ex_db "ex_no_duration\<lparr>portId := JStr []\<rparr>"]
    by blast
  then have rejected: "create_checkout_session (ex_env True) ex_db (ex_no_duration\<lparr>portId := JStr []\<rparr>) =
     \<lparr>resp = \<lparr>status = 400, body = Json_error ''Missing required booking data''\<rparr>,
      logged = [], store = ex_db\<rparr>"
    using validation_checks_six_fields [of "ex_env True" ex_db "ex_no_duration\<lparr>portId := JStr []\<rparr>"]
    by blast
  have "truthy (boatId ex_no_duration)" "truthy (portId ex_no_duration)" "truthy (userId ex_no_duration)"
    "truthy (startTime ex_no_duration)" "truthy (endTime ex_no_duration)" "truthy (bookingType ex_no_duration)"
    by (simp_all add: ex_no_duration_def ex_request_def)
  then have "status (resp (create_checkout_session (ex_env True) ex_db ex_no_duration)) \<noteq> 400"
    using validation_checks_six_fields [of "ex_env True" ex_db ex_no_duration]
    by blast
  with rejected show ?thesis
    by blast
qed

text \<open>
  Claim C10. For every request whose boat id matches no boat, no booking is stored: the
  database is unchanged. When the request has its six required fields, the id is a string
  and the database answers, the response is 404 "Boat not found".
\<close>

theorem unknown_boat_not_found:
  assumes "\<forall>s. boatId req = JStr s \<longrightarrow> boats d s = None"
  shows "store (create_checkout_session env d req) = d \<and>
         (\<not> missing_required req \<and> db_up env \<and> (\<exists>s. boatId req = JStr s) \<longrightarrow>
            create_checkout_session env d req =
              \<lparr>resp = \<lparr>status = 404, body = Json_error ''Boat not found''\<rparr>, logged = [], store = d\<rparr>)"
proof -
  have lookup: "boat_findUnique (db_up env) d (boatId req) \<noteq> Inr (Some bt)" for bt
    using assms by (cases "boatId req") (simp_all split: if_splits)
  have unchanged: "store (create_checkout_session env d req) = d"
  proof (cases "missing_required req")
    case True
    then show ?thesis by (simp add: checkout_incomplete)
  next
    case False
    show ?thesis
    proof (cases "boat_findUnique (db_up env) d (boatId req)")
      case (Inl e)
      then show ?thesis
        using False by (simp add: create_checkout_session_def)
    next
      case (Inr found)
      with lookup have "found = None"
        by (cases found) blast+
      with Inr show ?thesis
        using False by (simp add: create_checkout_session_def)
    qed
  qed
  have not_found: "create_checkout_session env d req =
              \<lparr>resp = \<lparr>status = 404, body = Json_error ''Boat not found''\<rparr>, logged = [], store = d\<rparr>"
    if "\<not> missing_required req" and "db_up env" and "boatId req = JStr s" for s
    using that assms by (simp add: create_checkout_session_def)
  show ?thesis
    using unchanged not_found by blast
qed

theorem unknown_boat_not_found_witness:
  "create_checkout_session (ex_env True) ex_db ex_unknown_boat =
     \<lparr>resp = \<lparr>status = 404, body = Json_error ''Boat not found''\<rparr>, logged = [], store = ex_db\<rparr>"
proof -
  have unknown: "\<forall>s. boatId ex_unknown_boat = JStr s \<longrightarrow> boats ex_db s = None"
    by (simp add: ex_unknown_boat_def ex_request_def ex_db_def)
  have "\<not> missing_required ex_unknown_boat" and "db_up (ex_env True)"
    and "\<exists>s. boatId ex_unknown_boat = JStr s"
    by (simp_all add: ex_unknown_boat_def ex_request_def missing_required_def ex_env_def)
  then show ?thesis
    using unknown_boat_not_found [OF unknown, of "ex_env True"] by blast
qed

end
